theory Spec2Isabelle
  imports Main "HOL-Library.Word"
begin

section \<open>GPUSparseMatrix.h: layout arithmetic and the nz-count cache\<close>

text \<open>
  The header \<^verbatim>\<open>Source/Math/GPUSparseMatrix.h\<close> declares the class template
  \<^verbatim>\<open>GPUSparseMatrix<ElemType>\<close>. Its inline members are embedded here:
  the size computations, the pointer arithmetic into the single packed buffer, the
  cache of the non-zero count and the format-guarded accessors.

  Machine types: \<^verbatim>\<open>size_t\<close> is a 64-bit word, \<^verbatim>\<open>GPUSPARSE_INDEX_TYPE\<close>
  a 32-bit word read as two's complement, a pointer is a 64-bit byte address.
  \<^verbatim>\<open>sizeof(ElemType)\<close> is the template's parameter and is passed to every function
  that needs it as its first argument \<open>sz\<close>.
\<close>

subsection \<open>Data\<close>

type_synonym size_t = "64 word"
type_synonym index_t = "32 word"
type_synonym addr = "64 word"

text \<open>
  Modelled from the spec: the enumeration \<^verbatim>\<open>MatrixFormat\<close> is declared outside this
  header. The data model lists the formats a sparse matrix can have: CSR, CSC,
  SparseBlockCol, SparseBlockRow and COO. The first four carry the enumerators' names
  as the header uses them; the header names COO only in a comment.
\<close>

datatype MatrixFormat =
    matrixFormatSparseCSC
  | matrixFormatSparseCSR
  | matrixFormatSparseBlockCol
  | matrixFormatSparseBlockRow
  | matrixFormatCOO

text \<open>
  Modelled from the spec: the flag \<^verbatim>\<open>matrixFormatRowMajor\<close> is declared outside this
  header. \<open>rowMajorBit f\<close> stands for \<^verbatim>\<open>f & matrixFormatRowMajor\<close>: the header's
  comments at its four uses say that it is set for CSR and clear for CSC. For the other
  formats its value is never consulted, since every use sits behind an assertion that
  the format is CSC or CSR.
\<close>

definition rowMajorBit :: "MatrixFormat \<Rightarrow> bool" where
  "rowMajorBit f = (f = matrixFormatSparseCSR)"

text \<open>
  Modelled from the spec: the macro \<^verbatim>\<open>NOT_IMPLEMENTED\<close> and the function
  \<^verbatim>\<open>LogicError\<close> are defined outside this header. The error design names the three
  ways a call can end abnormally: the ``not implemented'' fault, a logic error, and
  a failed \<^verbatim>\<open>assert\<close> (assertions are compiled in).
\<close>

datatype fault = NotImplemented | LogicError | AssertionFailure

text \<open>
  Modelled from the spec: the base class \<^verbatim>\<open>BaseMatrix<ElemType>\<close> is declared outside
  this header; its state is the data model's: extents, format, the buffer's address,
  the capacity of the value array, the block size and the slice-view offset.
  \<open>m_cachedNzCount\<close> is the header's own mutable member. \<open>deviceMem\<close> is the content
  of device memory, read as index cells by byte address.
\<close>

record GPUSparseMatrix =
  m_numRows :: size_t
  m_numCols :: size_t
  m_format :: MatrixFormat
  m_buffer :: addr
  m_elemSizeAllocated :: size_t
  m_blockSize :: size_t
  m_sliceViewOffset :: size_t
  m_cachedNzCount :: index_t
  deviceMem :: "addr \<Rightarrow> index_t"

definition GetNumRows :: "GPUSparseMatrix \<Rightarrow> size_t" where
  "GetNumRows m = m_numRows m"

definition GetNumCols :: "GPUSparseMatrix \<Rightarrow> size_t" where
  "GetNumCols m = m_numCols m"

definition GetFormat :: "GPUSparseMatrix \<Rightarrow> MatrixFormat" where
  "GetFormat m = m_format m"

definition Buffer :: "GPUSparseMatrix \<Rightarrow> addr" where
  "Buffer m = m_buffer m"

definition GetSizeAllocated :: "GPUSparseMatrix \<Rightarrow> size_t" where
  "GetSizeAllocated m = m_elemSizeAllocated m"

definition GetBlockSize :: "GPUSparseMatrix \<Rightarrow> size_t" where
  "GetBlockSize m = m_blockSize m"

text \<open>
  Modelled from the spec: the macro \<^verbatim>\<open>GPUSPARSE_INDEX_TYPE\<close> is defined outside this
  header; \<^verbatim>\<open>FetchNzCount\<close> returns it from an \<^verbatim>\<open>(int)\<close> cast, so
  \<^verbatim>\<open>sizeof(GPUSPARSE_INDEX_TYPE)\<close> is 4.
\<close>

definition sizeofIndex :: size_t where
  "sizeofIndex = 4"

definition INVALID_NZ_COUNT :: index_t where
  "INVALID_NZ_COUNT = - 1"

subsection \<open>Locations of the three sub-arrays\<close>

text \<open>
  \<^verbatim>\<open>Buffer()\<close> is an \<^verbatim>\<open>ElemType*\<close>, so adding \<open>n\<close> to it moves \<open>sz * n\<close> bytes; the
  index pointers move \<open>sizeofIndex\<close> bytes per slot.
\<close>

definition MajorIndexLocation :: "size_t \<Rightarrow> GPUSparseMatrix \<Rightarrow> addr" where
  "MajorIndexLocation sz m = Buffer m + sz * GetSizeAllocated m"

definition SecondaryIndexLocation :: "size_t \<Rightarrow> GPUSparseMatrix \<Rightarrow> addr" where
  "SecondaryIndexLocation sz m =
     (if GetFormat m = matrixFormatSparseBlockCol then
        MajorIndexLocation sz m + sizeofIndex * GetNumCols m
      else if GetFormat m = matrixFormatSparseBlockRow then
        MajorIndexLocation sz m + sizeofIndex * GetNumRows m
      else
        sizeofIndex * m_sliceViewOffset m +
          (Buffer m + (sz + sizeofIndex) * GetSizeAllocated m))"

text \<open>
  Modelled from the spec: \<^verbatim>\<open>SecondaryIndexValueAt\<close> is only declared in this header.
  The header's comment on \<^verbatim>\<open>Data()\<close> says that it goes through
  \<^verbatim>\<open>SecondaryIndexLocation\<close>, which already holds the slice-view offset: it reads
  the \<open>idx\<close>-th cell of the secondary index from the device.
\<close>

definition SecondaryIndexValueAt :: "size_t \<Rightarrow> GPUSparseMatrix \<Rightarrow> size_t \<Rightarrow> index_t" where
  "SecondaryIndexValueAt sz m idx =
     deviceMem m (SecondaryIndexLocation sz m + sizeofIndex * idx)"

text \<open>
  \<^verbatim>\<open>Data()\<close> is the address of the first value in use: for CSC and CSR the buffer
  moved on by the first entry of the secondary index, an \<^verbatim>\<open>int\<close> that is added to
  an \<^verbatim>\<open>ElemType*\<close> with its sign.
\<close>

definition Data :: "size_t \<Rightarrow> GPUSparseMatrix \<Rightarrow> addr" where
  "Data sz m =
     Buffer m +
     sz * (if GetFormat m = matrixFormatSparseCSC \<or> GetFormat m = matrixFormatSparseCSR
           then scast (SecondaryIndexValueAt sz m 0) else 0)"

definition NzValues :: "size_t \<Rightarrow> GPUSparseMatrix \<Rightarrow> addr" where
  "NzValues sz m = Data sz m"

definition MajorIndexLocationWithSliceViewOffset :: "size_t \<Rightarrow> GPUSparseMatrix \<Rightarrow> addr" where
  "MajorIndexLocationWithSliceViewOffset sz m = Data sz m + sz * GetSizeAllocated m"

subsection \<open>The nz-count cache\<close>

definition FetchNzCount :: "size_t \<Rightarrow> GPUSparseMatrix \<Rightarrow> fault + index_t" where
  "FetchNzCount sz m =
     (if GetFormat m = matrixFormatSparseCSC then
        Inr (SecondaryIndexValueAt sz m (GetNumCols m) - SecondaryIndexValueAt sz m 0)
      else if GetFormat m = matrixFormatSparseCSR then
        Inr (SecondaryIndexValueAt sz m (GetNumRows m) - SecondaryIndexValueAt sz m 0)
      else if GetFormat m = matrixFormatSparseBlockCol then
        Inr (ucast (GetNumRows m * GetBlockSize m))
      else Inl NotImplemented)"

definition HasCachedNzCount :: "GPUSparseMatrix \<Rightarrow> bool" where
  "HasCachedNzCount m = (m_cachedNzCount m \<noteq> INVALID_NZ_COUNT)"

text \<open>
  \<^verbatim>\<open>NzCount\<close> returns the count and leaves the matrix with its cache filled. When the
  fetch throws, the assignment has not happened and the matrix is as before.
\<close>

definition NzCount :: "size_t \<Rightarrow> GPUSparseMatrix \<Rightarrow> fault + (index_t \<times> GPUSparseMatrix)" where
  "NzCount sz m =
     (if \<not> HasCachedNzCount m then
        (case FetchNzCount sz m of
           Inl e \<Rightarrow> Inl e
         | Inr c \<Rightarrow> Inr (c, m\<lparr>m_cachedNzCount := c\<rparr>))
      else Inr (m_cachedNzCount m, m))"

definition InvalidateCachedNzCount :: "GPUSparseMatrix \<Rightarrow> GPUSparseMatrix" where
  "InvalidateCachedNzCount m = m\<lparr>m_cachedNzCount := INVALID_NZ_COUNT\<rparr>"

text \<open>
  \<^verbatim>\<open>VerifyCachedNzCount\<close> has two bodies under a preprocessor conditional; the first
  argument of \<open>VerifyCachedNzCount_if\<close> is the conditional's value. The header has
  \<^verbatim>\<open>#if 1\<close> (``this branch disables the verification''), which is
  \<open>VerifyCachedNzCount\<close>.
\<close>

definition VerifyCachedNzCount_if ::
  "bool \<Rightarrow> size_t \<Rightarrow> GPUSparseMatrix \<Rightarrow> index_t \<Rightarrow> fault + unit" where
  "VerifyCachedNzCount_if disabled sz m nzCount =
     (if disabled then Inr ()
      else (case FetchNzCount sz m of
              Inl e \<Rightarrow> Inl e
            | Inr c \<Rightarrow> if c \<noteq> nzCount then Inl LogicError else Inr ()))"

definition VerifyCachedNzCount :: "size_t \<Rightarrow> GPUSparseMatrix \<Rightarrow> index_t \<Rightarrow> fault + unit" where
  "VerifyCachedNzCount = VerifyCachedNzCount_if True"

text \<open>
  \<^verbatim>\<open>UpdateCachedNzCount\<close> assigns the member first and verifies afterwards, so the
  matrix it leaves behind is returned beside the outcome: an exception of the
  verification does not undo the assignment.
\<close>

definition UpdateCachedNzCount_if ::
  "bool \<Rightarrow> size_t \<Rightarrow> GPUSparseMatrix \<Rightarrow> index_t \<Rightarrow> bool \<Rightarrow> GPUSparseMatrix \<times> (fault + unit)" where
  "UpdateCachedNzCount_if disabled sz m nzCount shouldVerify =
     (let m' = m\<lparr>m_cachedNzCount := nzCount\<rparr> in
        (m', if shouldVerify then VerifyCachedNzCount_if disabled sz m' (m_cachedNzCount m')
             else Inr ()))"

definition UpdateCachedNzCount ::
  "size_t \<Rightarrow> GPUSparseMatrix \<Rightarrow> index_t \<Rightarrow> bool \<Rightarrow> GPUSparseMatrix \<times> (fault + unit)" where
  "UpdateCachedNzCount = UpdateCachedNzCount_if True"

subsection \<open>Sizes\<close>

definition MajorIndexCount :: "size_t \<Rightarrow> size_t \<Rightarrow> size_t \<Rightarrow> MatrixFormat \<Rightarrow> size_t" where
  "MajorIndexCount numRows numCols numNZ format =
     (if format = matrixFormatSparseBlockCol then numCols
      else if format = matrixFormatSparseBlockRow then numRows
      else numNZ)"

definition SecondaryIndexCount :: "size_t \<Rightarrow> size_t \<Rightarrow> size_t \<Rightarrow> MatrixFormat \<Rightarrow> size_t" where
  "SecondaryIndexCount numRows numCols numNZReserved format =
     (if format = matrixFormatSparseBlockCol then numCols
      else if format = matrixFormatSparseBlockRow then numRows
      else if format = matrixFormatSparseCSC then numCols + 1
      else if format = matrixFormatSparseCSR then numRows + 1
      else numNZReserved)"

definition BufferSizeNeeded ::
  "size_t \<Rightarrow> size_t \<Rightarrow> size_t \<Rightarrow> size_t \<Rightarrow> MatrixFormat \<Rightarrow> size_t" where
  "BufferSizeNeeded sz numRows numCols numNZ format =
     sz * numNZ +
     sizeofIndex * (MajorIndexCount numRows numCols numNZ format +
                    SecondaryIndexCount numRows numCols numNZ format)"

definition ComputeMaxNZElemFromBufferSize ::
  "size_t \<Rightarrow> size_t \<Rightarrow> size_t \<Rightarrow> size_t \<Rightarrow> MatrixFormat \<Rightarrow> fault + size_t" where
  "ComputeMaxNZElemFromBufferSize sz numRows numCols bufferSize format =
     (if format = matrixFormatSparseBlockCol then
        Inr ((bufferSize - 2 * sizeofIndex * numCols) div sz)
      else if format = matrixFormatSparseBlockRow then
        Inr ((bufferSize - 2 * sizeofIndex * numRows) div sz)
      else if format = matrixFormatSparseCSC then
        Inr ((bufferSize - sizeofIndex * (numCols + 1)) div (sizeofIndex + sz))
      else if format = matrixFormatSparseCSR then
        Inr ((bufferSize - sizeofIndex * (numRows + 1)) div (sizeofIndex + sz))
      else Inl NotImplemented)"

text \<open>
  The members without arguments read the matrix. \<^verbatim>\<open>MajorIndexCount()\<close> calls
  \<^verbatim>\<open>NzCount()\<close>, so it can fill the cache and can fail as the fetch does; the
  \<^verbatim>\<open>int\<close> it gets is converted to \<^verbatim>\<open>size_t\<close> with its sign.
\<close>

definition MajorIndexCount_this :: "size_t \<Rightarrow> GPUSparseMatrix \<Rightarrow> fault + (size_t \<times> GPUSparseMatrix)" where
  "MajorIndexCount_this sz m =
     (case NzCount sz m of
        Inl e \<Rightarrow> Inl e
      | Inr (c, m') \<Rightarrow>
          Inr (MajorIndexCount (GetNumRows m') (GetNumCols m') (scast c) (GetFormat m'), m'))"

definition MajorIndexSize :: "size_t \<Rightarrow> GPUSparseMatrix \<Rightarrow> fault + (size_t \<times> GPUSparseMatrix)" where
  "MajorIndexSize sz m =
     (case MajorIndexCount_this sz m of
        Inl e \<Rightarrow> Inl e
      | Inr (n, m') \<Rightarrow> Inr (sizeofIndex * n, m'))"

definition SecondaryIndexCount_this :: "GPUSparseMatrix \<Rightarrow> size_t" where
  "SecondaryIndexCount_this m =
     SecondaryIndexCount (GetNumRows m) (GetNumCols m) (GetSizeAllocated m) (GetFormat m)"

definition SecondaryIndexSize :: "GPUSparseMatrix \<Rightarrow> size_t" where
  "SecondaryIndexSize m = SecondaryIndexCount_this m * sizeofIndex"

subsection \<open>Accessors guarded by an assertion on the format\<close>

definition isCompressed :: "MatrixFormat \<Rightarrow> bool" where
  "isCompressed f = (f = matrixFormatSparseCSC \<or> f = matrixFormatSparseCSR)"

definition isBlock :: "MatrixFormat \<Rightarrow> bool" where
  "isBlock f = (f = matrixFormatSparseBlockCol \<or> f = matrixFormatSparseBlockRow)"

definition RowLocation :: "size_t \<Rightarrow> GPUSparseMatrix \<Rightarrow> fault + addr" where
  "RowLocation sz m =
     (if \<not> isCompressed (GetFormat m) then Inl AssertionFailure
      else Inr (if rowMajorBit (GetFormat m) then SecondaryIndexLocation sz m
                else MajorIndexLocation sz m))"

definition RowSize :: "size_t \<Rightarrow> GPUSparseMatrix \<Rightarrow> fault + (size_t \<times> GPUSparseMatrix)" where
  "RowSize sz m =
     (if \<not> isCompressed (GetFormat m) then Inl AssertionFailure
      else if rowMajorBit (GetFormat m) then Inr (SecondaryIndexSize m, m)
      else MajorIndexSize sz m)"

definition ColLocation :: "size_t \<Rightarrow> GPUSparseMatrix \<Rightarrow> fault + addr" where
  "ColLocation sz m =
     (if \<not> isCompressed (GetFormat m) then Inl AssertionFailure
      else Inr (if rowMajorBit (GetFormat m) then MajorIndexLocation sz m
                else SecondaryIndexLocation sz m))"

definition ColSize :: "size_t \<Rightarrow> GPUSparseMatrix \<Rightarrow> fault + (size_t \<times> GPUSparseMatrix)" where
  "ColSize sz m =
     (if \<not> isCompressed (GetFormat m) then Inl AssertionFailure
      else if rowMajorBit (GetFormat m) then MajorIndexSize sz m
      else Inr (SecondaryIndexSize m, m))"

definition BlockId2ColOrRow :: "size_t \<Rightarrow> GPUSparseMatrix \<Rightarrow> fault + addr" where
  "BlockId2ColOrRow sz m =
     (if \<not> isBlock (GetFormat m) then Inl AssertionFailure
      else Inr (MajorIndexLocation sz m))"

definition ColOrRow2BlockId :: "size_t \<Rightarrow> GPUSparseMatrix \<Rightarrow> fault + addr" where
  "ColOrRow2BlockId sz m =
     (if \<not> isBlock (GetFormat m) then Inl AssertionFailure
      else Inr (SecondaryIndexLocation sz m))"

subsection \<open>Concrete matrices\<close>

text \<open>
  A 2 by 3 CSC matrix of \<^verbatim>\<open>float\<close> with four non-zeros in a buffer at address 4096 with
  room for four values: the values are at 4096, the major index at 4112 and the
  secondary index, \<open>[0, 1, 3, 4]\<close>, at 4128. Its cache is invalid.
\<close>

definition exCSC :: GPUSparseMatrix where
  "exCSC = \<lparr> m_numRows = 2, m_numCols = 3, m_format = matrixFormatSparseCSC,
      m_buffer = 4096, m_elemSizeAllocated = 4, m_blockSize = 0, m_sliceViewOffset = 0,
      m_cachedNzCount = INVALID_NZ_COUNT,
      deviceMem = (\<lambda>a. if a = 4132 then 1 else if a = 4136 then 3
                        else if a = 4140 then 4 else 0) \<rparr>"

text \<open>
  A block-column matrix with 65535 rows and 65537 stored columns: its value array has
  \<open>2 ^ 32 - 1\<close> elements. Its cache is invalid.
\<close>

definition sbcHuge :: GPUSparseMatrix where
  "sbcHuge = \<lparr> m_numRows = 65535, m_numCols = 65537,
      m_format = matrixFormatSparseBlockCol,
      m_buffer = 4096, m_elemSizeAllocated = 4294967295, m_blockSize = 65537,
      m_sliceViewOffset = 0, m_cachedNzCount = INVALID_NZ_COUNT,
      deviceMem = (\<lambda>a. 0) \<rparr>"

text \<open>The same buffer read as a 3 by 2 CSR matrix, and under the other formats.\<close>

definition exCSR :: GPUSparseMatrix where
  "exCSR = exCSC\<lparr>m_numRows := 3, m_numCols := 2, m_format := matrixFormatSparseCSR\<rparr>"

definition exSBC :: GPUSparseMatrix where
  "exSBC = exCSC\<lparr>m_format := matrixFormatSparseBlockCol, m_blockSize := 2\<rparr>"

definition exSBR :: GPUSparseMatrix where
  "exSBR = exCSC\<lparr>m_format := matrixFormatSparseBlockRow, m_blockSize := 2\<rparr>"

definition exCOO :: GPUSparseMatrix where
  "exCOO = exCSC\<lparr>m_format := matrixFormatCOO\<rparr>"

text \<open>
  A view of columns 1 and 2 of \<open>exCSC\<close>: the same buffer, two columns, and a
  slice-view offset of 1.
\<close>

definition exSlice :: GPUSparseMatrix where
  "exSlice = exCSC\<lparr>m_numCols := 2, m_sliceViewOffset := 1\<rparr>"

section \<open>Properties\<close>

lemmas getters =
  GetFormat_def GetNumRows_def GetNumCols_def Buffer_def GetSizeAllocated_def GetBlockSize_def

lemma FetchNzCount_update_cache:
  "FetchNzCount sz (m\<lparr>m_cachedNzCount := c\<rparr>) = FetchNzCount sz m"
  by (simp add: FetchNzCount_def SecondaryIndexValueAt_def SecondaryIndexLocation_def
      MajorIndexLocation_def getters)

lemma FetchNzCount_exCSC: "FetchNzCount 4 exCSC = Inr 4"
  by (simp add: FetchNzCount_def exCSC_def getters SecondaryIndexValueAt_def
      SecondaryIndexLocation_def sizeofIndex_def)

lemma exCSC_invalid: "\<not> HasCachedNzCount exCSC"
  by (simp add: HasCachedNzCount_def exCSC_def)

lemmas ex_defs = exCSC_def exCSR_def exSBC_def exSBR_def exCOO_def

text \<open>Narrowing a \<^verbatim>\<open>size_t\<close> product to the index type.\<close>

lemma word32_of_int_mod64:
  "(word_of_int (x mod 18446744073709551616) :: 32 word) = word_of_int x"
proof -
  have d: "(4294967296::int) dvd 18446744073709551616"
    by simp
  show ?thesis
    by (simp add: word_of_int_eq_iff take_bit_eq_mod mod_mod_cancel [OF d])
qed

lemma ucast_product_index:
  fixes a b :: "64 word"
  shows "(ucast (a * b) :: 32 word) = ucast a * ucast b"
proof -
  have "(ucast (a * b) :: 32 word) = word_of_int ((uint a * uint b) mod 18446744073709551616)"
    by (simp only: ucast_eq uint_word_ariths) simp
  also have "\<dots> = (word_of_int (uint a * uint b) :: 32 word)"
    by (rule word32_of_int_mod64)
  also have "\<dots> = ucast a * ucast b"
    by (simp only: ucast_eq of_int_mult)
  finally show ?thesis .
qed

lemma ucast_product_small:
  fixes a b :: "64 word"
  assumes "unat a * unat b < 2 ^ 31"
  shows "sint (ucast (a * b) :: 32 word) = int (unat a * unat b)"
proof -
  define p where "p = int (unat a * unat b)"
  have lt64: "unat a * unat b < 2 ^ LENGTH(64)"
    using assms by simp
  have "unat (a * b) = unat a * unat b"
    using lt64 by (simp only: unat_mult_lem [THEN iffD1])
  then have u: "uint (a * b) = p"
    unfolding p_def by (metis uint_nat)
  have lt: "p < 2 ^ 31"
    unfolding p_def using assms by (metis of_nat_less_iff of_nat_numeral of_nat_power)
  have ge: "0 \<le> p"
    unfolding p_def by simp
  have "uint (ucast (a * b) :: 32 word) = take_bit 32 (uint (a * b))"
    by (simp add: unsigned_ucast_eq)
  also have "\<dots> = p"
    using lt ge by (simp only: u) (simp add: take_bit_int_eq_self)
  finally have v: "uint (ucast (a * b) :: 32 word) = p" .
  have "sint (ucast (a * b) :: 32 word) = signed_take_bit 31 (uint (ucast (a * b) :: 32 word))"
    by (simp add: sint_uint)
  also have "\<dots> = p"
    using lt ge by (simp only: v) (simp add: signed_take_bit_int_eq_self)
  finally show ?thesis
    by (simp only: p_def)
qed

lemma narrow_exact_iff:
  fixes w :: "64 word"
  shows "sint (ucast w :: 32 word) = int (unat w) \<longleftrightarrow> unat w < 2 ^ 31"
proof
  assume e: "sint (ucast w :: 32 word) = int (unat w)"
  have "sint (ucast w :: 32 word) < 2 ^ (LENGTH(32) - 1)"
    by (rule sint_lt)
  then have "int (unat w) < 2 ^ 31"
    by (simp only: e) simp
  then show "unat w < 2 ^ 31"
    by (metis of_nat_less_iff of_nat_numeral of_nat_power)
next
  assume b: "unat w < 2 ^ 31"
  define p where "p = int (unat w)"
  have u: "uint w = p"
    unfolding p_def by simp
  have lt: "p < 2 ^ 31"
    unfolding p_def using b by (metis of_nat_less_iff of_nat_numeral of_nat_power)
  have ge: "0 \<le> p"
    unfolding p_def by simp
  have "uint (ucast w :: 32 word) = take_bit 32 (uint w)"
    by (simp add: unsigned_ucast_eq)
  also have "\<dots> = p"
    using lt ge by (simp only: u) (simp add: take_bit_int_eq_self)
  finally have v: "uint (ucast w :: 32 word) = p" .
  have "sint (ucast w :: 32 word) = signed_take_bit 31 (uint (ucast w :: 32 word))"
    by (simp add: sint_uint)
  also have "\<dots> = p"
    using lt ge by (simp only: v) (simp add: signed_take_bit_int_eq_self)
  finally show "sint (ucast w :: 32 word) = int (unat w)"
    by (simp only: p_def)
qed

text \<open>Exact division of a product that does not wrap.\<close>

lemma word64_div_exact:
  fixes a n :: "64 word"
  assumes "a \<noteq> 0" and "unat a * unat n < 2 ^ 64"
  shows "(a * n) div a = n" and "(a * n) mod a = 0"
proof -
  have pos: "0 < unat a"
    using assms(1) by (simp add: unat_gt_0)
  have "unat a * unat n < 2 ^ LENGTH(64)"
    using assms(2) by simp
  then have m: "unat (a * n) = unat a * unat n"
    by (simp only: unat_mult_lem [THEN iffD1])
  have "unat ((a * n) div a) = unat n"
    using pos by (simp only: unat_div m) simp
  then show "(a * n) div a = n"
    by (simp only: word_unat_eq_iff)
  have "unat ((a * n) mod a) = unat (0 :: 64 word)"
    by (simp only: unat_mod m) simp
  then show "(a * n) mod a = 0"
    by (simp only: word_unat_eq_iff)
qed

lemma block_values_bytes:
  "BufferSizeNeeded sz numRows numCols numNZ matrixFormatSparseBlockCol
     - 2 * sizeofIndex * numCols = sz * numNZ"
  "BufferSizeNeeded sz numRows numCols numNZ matrixFormatSparseBlockRow
     - 2 * sizeofIndex * numRows = sz * numNZ"
  by (simp_all add: BufferSizeNeeded_def MajorIndexCount_def SecondaryIndexCount_def
      algebra_simps)

lemma compressed_values_bytes:
  "BufferSizeNeeded sz numRows numCols numNZ matrixFormatSparseCSC
     - sizeofIndex * (numCols + 1) = (sizeofIndex + sz) * numNZ"
  "BufferSizeNeeded sz numRows numCols numNZ matrixFormatSparseCSR
     - sizeofIndex * (numRows + 1) = (sizeofIndex + sz) * numNZ"
  by (simp_all add: BufferSizeNeeded_def MajorIndexCount_def SecondaryIndexCount_def
      algebra_simps)

subsection \<open>The two states of the cache\<close>

text \<open>
  C1 (as amended). The cache of the non-zero count has two states. When it is valid,
  \<open>NzCount\<close> returns the cached value and leaves the matrix as it is, whatever the
  device memory holds: the device is not read. When it is invalid and the fetch
  succeeds with a count \<open>c\<close>, \<open>NzCount\<close> returns \<open>c\<close> and stores it; the cache is
  then valid exactly when \<open>c\<close> is not the sentinel \<open>-1\<close>. When the fetch fails,
  \<open>NzCount\<close> fails in the same way. \<open>InvalidateCachedNzCount\<close> makes the cache
  invalid, and a \<open>NzCount\<close> right after it returns what the fetch gives, never the
  value cached before.
\<close>

theorem NzCount_two_state:
  "(HasCachedNzCount m \<longrightarrow>
      NzCount sz m = Inr (m_cachedNzCount m, m) \<and>
      NzCount sz (m\<lparr>deviceMem := d\<rparr>) = Inr (m_cachedNzCount m, m\<lparr>deviceMem := d\<rparr>))
   \<and> (\<not> HasCachedNzCount m \<and> FetchNzCount sz m = Inr c \<longrightarrow>
        NzCount sz m = Inr (c, m\<lparr>m_cachedNzCount := c\<rparr>) \<and>
        (HasCachedNzCount (m\<lparr>m_cachedNzCount := c\<rparr>) = (c \<noteq> - 1)))
   \<and> (\<not> HasCachedNzCount m \<and> FetchNzCount sz m = Inl e \<longrightarrow> NzCount sz m = Inl e)
   \<and> \<not> HasCachedNzCount (InvalidateCachedNzCount m)
   \<and> (FetchNzCount sz m = Inr c \<longrightarrow>
        NzCount sz (InvalidateCachedNzCount m) = Inr (c, m\<lparr>m_cachedNzCount := c\<rparr>))"
proof (intro conjI impI)
  assume v: "HasCachedNzCount m"
  then show "NzCount sz m = Inr (m_cachedNzCount m, m)"
    by (simp add: NzCount_def)
  from v have "HasCachedNzCount (m\<lparr>deviceMem := d\<rparr>)"
    by (simp add: HasCachedNzCount_def)
  then show "NzCount sz (m\<lparr>deviceMem := d\<rparr>) = Inr (m_cachedNzCount m, m\<lparr>deviceMem := d\<rparr>)"
    by (simp add: NzCount_def)
next
  assume "\<not> HasCachedNzCount m \<and> FetchNzCount sz m = Inr c"
  then show "NzCount sz m = Inr (c, m\<lparr>m_cachedNzCount := c\<rparr>)"
    by (simp add: NzCount_def)
next
  show "HasCachedNzCount (m\<lparr>m_cachedNzCount := c\<rparr>) = (c \<noteq> - 1)"
    by (simp add: HasCachedNzCount_def INVALID_NZ_COUNT_def)
next
  assume "\<not> HasCachedNzCount m \<and> FetchNzCount sz m = Inl e"
  then show "NzCount sz m = Inl e"
    by (simp add: NzCount_def)
next
  show "\<not> HasCachedNzCount (InvalidateCachedNzCount m)"
    by (simp add: HasCachedNzCount_def InvalidateCachedNzCount_def)
next
  assume f: "FetchNzCount sz m = Inr c"
  have "\<not> HasCachedNzCount (InvalidateCachedNzCount m)"
    by (simp add: HasCachedNzCount_def InvalidateCachedNzCount_def)
  moreover have "FetchNzCount sz (InvalidateCachedNzCount m) = Inr c"
    using f by (simp add: InvalidateCachedNzCount_def FetchNzCount_update_cache)
  ultimately show "NzCount sz (InvalidateCachedNzCount m) = Inr (c, m\<lparr>m_cachedNzCount := c\<rparr>)"
    by (simp add: NzCount_def InvalidateCachedNzCount_def)
qed

text \<open>
  The theorem at \<open>exCSC\<close>: with 7 in the cache the call returns 7; with the cache
  invalid it fetches 4, which is then cached; after an invalidation the 7 is gone. At
  \<open>exCOO\<close> the fetch ends in the ``not implemented'' fault, and so does the call.
\<close>

theorem NzCount_two_state_witness:
  "NzCount 4 (exCSC\<lparr>m_cachedNzCount := 7\<rparr>) = Inr (7, exCSC\<lparr>m_cachedNzCount := 7\<rparr>)
   \<and> NzCount 4 exCSC = Inr (4, exCSC\<lparr>m_cachedNzCount := 4\<rparr>)
   \<and> HasCachedNzCount (exCSC\<lparr>m_cachedNzCount := 4\<rparr>)
   \<and> NzCount 4 (InvalidateCachedNzCount (exCSC\<lparr>m_cachedNzCount := 7\<rparr>))
       = Inr (4, exCSC\<lparr>m_cachedNzCount := 4\<rparr>)
   \<and> NzCount 4 exCOO = Inl NotImplemented"
proof -
  have valid: "HasCachedNzCount (exCSC\<lparr>m_cachedNzCount := 7\<rparr>)"
    by (simp add: HasCachedNzCount_def INVALID_NZ_COUNT_def)
  have fetch': "FetchNzCount 4 (exCSC\<lparr>m_cachedNzCount := 7\<rparr>) = Inr 4"
    using FetchNzCount_exCSC by (simp add: FetchNzCount_update_cache)
  have coo: "\<not> HasCachedNzCount exCOO" "FetchNzCount 4 exCOO = Inl NotImplemented"
    by (simp_all add: HasCachedNzCount_def FetchNzCount_def ex_defs getters)
  show ?thesis
    using NzCount_two_state [of "exCSC\<lparr>m_cachedNzCount := 7\<rparr>" 4 "deviceMem exCSC" 4 NotImplemented]
      NzCount_two_state [of exCSC 4 "deviceMem exCSC" 4 NotImplemented]
      NzCount_two_state [of exCOO 4 "deviceMem exCSC" 4 NotImplemented]
      valid exCSC_invalid FetchNzCount_exCSC fetch' coo
    by simp
qed

text \<open>
  C1 as it is stated fails at \<open>sbcHuge\<close>: the cache is invalid, the fetch gives
  \<^verbatim>\<open>(int)(65535 * 65537)\<close>, which is \<open>-1\<close>, and the matrix after the call is the matrix
  before it: the count has not been stored as a valid one.
\<close>

theorem NzCount_sentinel_counterexample:
  "\<not> HasCachedNzCount sbcHuge \<and> FetchNzCount 4 sbcHuge = Inr (- 1)
   \<and> NzCount 4 sbcHuge = Inr (- 1, sbcHuge)"
  by (simp add: NzCount_def HasCachedNzCount_def INVALID_NZ_COUNT_def FetchNzCount_def
      sbcHuge_def GetFormat_def GetNumRows_def GetBlockSize_def)

subsection \<open>What the fetch computes\<close>

text \<open>
  C2 (as amended). The fetched non-zero count is
  \<open>secondaryIndex[numCols] - secondaryIndex[0]\<close> for CSC and
  \<open>secondaryIndex[numRows] - secondaryIndex[0]\<close> for CSR. For SparseBlockCol it is
  \<open>numRows * blockSize\<close> narrowed from \<^verbatim>\<open>size_t\<close> to the index type by the
  \<^verbatim>\<open>(int)\<close> cast: read as a signed count it equals the \<^verbatim>\<open>size_t\<close> product exactly
  when that product is below \<open>2 ^ 31\<close>, which holds whenever the product of the two
  numbers is below \<open>2 ^ 31\<close>. For SparseBlockRow and COO the fetch ends in the
  ``not implemented'' fault.
\<close>

theorem FetchNzCount_by_format:
  "(GetFormat m = matrixFormatSparseCSC \<longrightarrow>
      FetchNzCount sz m =
        Inr (SecondaryIndexValueAt sz m (GetNumCols m) - SecondaryIndexValueAt sz m 0))
   \<and> (GetFormat m = matrixFormatSparseCSR \<longrightarrow>
      FetchNzCount sz m =
        Inr (SecondaryIndexValueAt sz m (GetNumRows m) - SecondaryIndexValueAt sz m 0))
   \<and> (GetFormat m = matrixFormatSparseBlockCol \<longrightarrow>
      FetchNzCount sz m = Inr (ucast (GetNumRows m * GetBlockSize m)) \<and>
      FetchNzCount sz m = Inr (ucast (GetNumRows m) * ucast (GetBlockSize m)))
   \<and> (GetFormat m = matrixFormatSparseBlockCol \<longrightarrow>
      (\<exists>c. FetchNzCount sz m = Inr c \<and>
           (sint c = int (unat (GetNumRows m * GetBlockSize m))
              \<longleftrightarrow> unat (GetNumRows m * GetBlockSize m) < 2 ^ 31)))
   \<and> (GetFormat m = matrixFormatSparseBlockCol \<and>
        unat (GetNumRows m) * unat (GetBlockSize m) < 2 ^ 31 \<longrightarrow>
      (\<exists>c. FetchNzCount sz m = Inr c \<and>
           sint c = int (unat (GetNumRows m) * unat (GetBlockSize m))))
   \<and> (GetFormat m = matrixFormatSparseBlockRow \<or> GetFormat m = matrixFormatCOO \<longrightarrow>
      FetchNzCount sz m = Inl NotImplemented)"
proof (intro conjI impI)
  assume "GetFormat m = matrixFormatSparseCSC"
  then show "FetchNzCount sz m =
      Inr (SecondaryIndexValueAt sz m (GetNumCols m) - SecondaryIndexValueAt sz m 0)"
    by (simp add: FetchNzCount_def)
next
  assume "GetFormat m = matrixFormatSparseCSR"
  then show "FetchNzCount sz m =
      Inr (SecondaryIndexValueAt sz m (GetNumRows m) - SecondaryIndexValueAt sz m 0)"
    by (simp add: FetchNzCount_def)
next
  assume f: "GetFormat m = matrixFormatSparseBlockCol"
  then show a: "FetchNzCount sz m = Inr (ucast (GetNumRows m * GetBlockSize m))"
    by (simp add: FetchNzCount_def)
  then show "FetchNzCount sz m = Inr (ucast (GetNumRows m) * ucast (GetBlockSize m))"
    by (simp only: ucast_product_index)
next
  assume f: "GetFormat m = matrixFormatSparseBlockCol"
  then have "FetchNzCount sz m = Inr (ucast (GetNumRows m * GetBlockSize m))"
    by (simp add: FetchNzCount_def)
  moreover have "sint (ucast (GetNumRows m * GetBlockSize m) :: 32 word)
        = int (unat (GetNumRows m * GetBlockSize m))
      \<longleftrightarrow> unat (GetNumRows m * GetBlockSize m) < 2 ^ 31"
    by (rule narrow_exact_iff)
  ultimately show "\<exists>c. FetchNzCount sz m = Inr c \<and>
      (sint c = int (unat (GetNumRows m * GetBlockSize m))
        \<longleftrightarrow> unat (GetNumRows m * GetBlockSize m) < 2 ^ 31)"
    by blast
next
  assume "GetFormat m = matrixFormatSparseBlockCol \<and>
    unat (GetNumRows m) * unat (GetBlockSize m) < 2 ^ 31"
  then have "FetchNzCount sz m = Inr (ucast (GetNumRows m * GetBlockSize m))"
    and "sint (ucast (GetNumRows m * GetBlockSize m) :: 32 word)
         = int (unat (GetNumRows m) * unat (GetBlockSize m))"
    by (simp_all add: FetchNzCount_def ucast_product_small)
  then show "\<exists>c. FetchNzCount sz m = Inr c \<and>
      sint c = int (unat (GetNumRows m) * unat (GetBlockSize m))"
    by blast
next
  assume "GetFormat m = matrixFormatSparseBlockRow \<or> GetFormat m = matrixFormatCOO"
  then show "FetchNzCount sz m = Inl NotImplemented"
    by (auto simp add: FetchNzCount_def)
qed

text \<open>
  The theorem at the five example matrices: the secondary index of \<open>exCSC\<close> and
  \<open>exCSR\<close> runs from 0 to 4, and \<open>exSBC\<close> has 2 rows and block size 2.
\<close>

theorem FetchNzCount_by_format_witness:
  "FetchNzCount 4 exCSC = Inr 4
   \<and> FetchNzCount 4 exCSR = Inr 4
   \<and> FetchNzCount 4 exSBC = Inr 4
   \<and> (\<exists>c. FetchNzCount 4 exSBC = Inr c \<and> sint c = 4)
   \<and> FetchNzCount 4 exSBR = Inl NotImplemented
   \<and> FetchNzCount 4 exCOO = Inl NotImplemented"
proof -
  have csc: "GetFormat exCSC = matrixFormatSparseCSC"
    "SecondaryIndexValueAt 4 exCSC (GetNumCols exCSC) = 4"
    "SecondaryIndexValueAt 4 exCSC 0 = 0"
    by (simp_all add: ex_defs getters SecondaryIndexValueAt_def SecondaryIndexLocation_def
        sizeofIndex_def)
  have csr: "GetFormat exCSR = matrixFormatSparseCSR"
    "SecondaryIndexValueAt 4 exCSR (GetNumRows exCSR) = 4"
    "SecondaryIndexValueAt 4 exCSR 0 = 0"
    by (simp_all add: ex_defs getters SecondaryIndexValueAt_def SecondaryIndexLocation_def
        sizeofIndex_def)
  have sbc: "GetFormat exSBC = matrixFormatSparseBlockCol"
    "GetNumRows exSBC = 2" "GetBlockSize exSBC = 2"
    by (simp_all add: ex_defs getters)
  have other: "GetFormat exSBR = matrixFormatSparseBlockRow" "GetFormat exCOO = matrixFormatCOO"
    by (simp_all add: ex_defs getters)
  show ?thesis
    using FetchNzCount_by_format [of exCSC 4] FetchNzCount_by_format [of exCSR 4]
      FetchNzCount_by_format [of exSBC 4] FetchNzCount_by_format [of exSBR 4]
      FetchNzCount_by_format [of exCOO 4]
    by (simp add: csc csr sbc other)
qed

text \<open>
  C2 as it is stated fails at \<open>sbcHuge\<close>: the format is SparseBlockCol and
  \<open>numRows * blockSize\<close> is 4294967295, but the fetched count is \<open>-1\<close>.
\<close>

theorem FetchNzCount_narrowing_counterexample:
  "GetFormat sbcHuge = matrixFormatSparseBlockCol
   \<and> FetchNzCount 4 sbcHuge = Inr (- 1)
   \<and> sint (- 1 :: index_t) = - 1
   \<and> unat (GetNumRows sbcHuge * GetBlockSize sbcHuge) = 4294967295"
  by (simp add: FetchNzCount_def sbcHuge_def getters)

subsection \<open>Buffer sizes\<close>

text \<open>
  C3. \<open>BufferSizeNeeded\<close> returns
  \<open>sizeof(value) * nnz + sizeof(index) * (majorCount + secondaryCount)\<close>, where the
  major count is \<open>nnz\<close> for CSR and CSC, \<open>numCols\<close> for SparseBlockCol and \<open>numRows\<close>
  for SparseBlockRow, and the secondary count is \<open>numRows + 1\<close> for CSR,
  \<open>numCols + 1\<close> for CSC, \<open>numCols\<close> for SparseBlockCol and \<open>numRows\<close> for
  SparseBlockRow.
\<close>

theorem BufferSizeNeeded_formula:
  "BufferSizeNeeded sz numRows numCols numNZ format =
     sz * numNZ + sizeofIndex * (MajorIndexCount numRows numCols numNZ format +
                                 SecondaryIndexCount numRows numCols numNZ format)
   \<and> MajorIndexCount numRows numCols numNZ matrixFormatSparseCSR = numNZ
   \<and> MajorIndexCount numRows numCols numNZ matrixFormatSparseCSC = numNZ
   \<and> MajorIndexCount numRows numCols numNZ matrixFormatSparseBlockCol = numCols
   \<and> MajorIndexCount numRows numCols numNZ matrixFormatSparseBlockRow = numRows
   \<and> SecondaryIndexCount numRows numCols numNZ matrixFormatSparseCSR = numRows + 1
   \<and> SecondaryIndexCount numRows numCols numNZ matrixFormatSparseCSC = numCols + 1
   \<and> SecondaryIndexCount numRows numCols numNZ matrixFormatSparseBlockCol = numCols
   \<and> SecondaryIndexCount numRows numCols numNZ matrixFormatSparseBlockRow = numRows
   \<and> BufferSizeNeeded sz numRows numCols numNZ matrixFormatSparseCSR =
       sz * numNZ + sizeofIndex * (numNZ + (numRows + 1))
   \<and> BufferSizeNeeded sz numRows numCols numNZ matrixFormatSparseCSC =
       sz * numNZ + sizeofIndex * (numNZ + (numCols + 1))
   \<and> BufferSizeNeeded sz numRows numCols numNZ matrixFormatSparseBlockCol =
       sz * numNZ + sizeofIndex * (numCols + numCols)
   \<and> BufferSizeNeeded sz numRows numCols numNZ matrixFormatSparseBlockRow =
       sz * numNZ + sizeofIndex * (numRows + numRows)"
  by (simp add: BufferSizeNeeded_def MajorIndexCount_def SecondaryIndexCount_def)

text \<open>
  C4 (as amended). For the format outside CSR, CSC, SparseBlockCol and SparseBlockRow,
  which is COO, only \<open>ComputeMaxNZElemFromBufferSize\<close> ends in the ``not implemented''
  fault. \<open>MajorIndexCount\<close> and \<open>SecondaryIndexCount\<close> return \<open>nnz\<close>, the latter
  in the branch the header marks as the COO format, and \<open>BufferSizeNeeded\<close> returns
  \<open>sizeof(value) * nnz + sizeof(index) * (nnz + nnz)\<close>.
\<close>

theorem size_computation_COO:
  "ComputeMaxNZElemFromBufferSize sz numRows numCols bufferSize matrixFormatCOO
     = Inl NotImplemented
   \<and> MajorIndexCount numRows numCols numNZ matrixFormatCOO = numNZ
   \<and> SecondaryIndexCount numRows numCols numNZ matrixFormatCOO = numNZ
   \<and> BufferSizeNeeded sz numRows numCols numNZ matrixFormatCOO
       = sz * numNZ + sizeofIndex * (numNZ + numNZ)"
  by (simp add: ComputeMaxNZElemFromBufferSize_def BufferSizeNeeded_def MajorIndexCount_def
      SecondaryIndexCount_def)

text \<open>
  C4 as it is stated fails for 2 rows, 3 columns and 5 non-zeros of \<^verbatim>\<open>float\<close> in COO:
  the three operations return 5, 5 and 60.
\<close>

theorem size_computation_COO_counterexample:
  "MajorIndexCount 2 3 5 matrixFormatCOO = 5
   \<and> SecondaryIndexCount 2 3 5 matrixFormatCOO = 5
   \<and> BufferSizeNeeded 4 2 3 5 matrixFormatCOO = 60"
  by (simp add: BufferSizeNeeded_def MajorIndexCount_def SecondaryIndexCount_def sizeofIndex_def)

text \<open>
  C9 (as amended). \<open>ComputeMaxNZElemFromBufferSize\<close> undoes \<open>BufferSizeNeeded\<close>,
  with nothing lost in the division, for all row and column counts and every \<open>nnz\<close>
  whose arrays fit \<^verbatim>\<open>size_t\<close>: \<open>sizeof(value) * nnz < 2 ^ 64\<close> for the block
  formats, \<open>(sizeof(index) + sizeof(value)) * nnz < 2 ^ 64\<close> for CSR and CSC.
\<close>

theorem ComputeMaxNZElem_left_inverse:
  "(sz \<noteq> 0 \<and> unat sz * unat numNZ < 2 ^ 64 \<longrightarrow>
      ComputeMaxNZElemFromBufferSize sz numRows numCols
        (BufferSizeNeeded sz numRows numCols numNZ matrixFormatSparseBlockCol)
        matrixFormatSparseBlockCol = Inr numNZ
      \<and> (BufferSizeNeeded sz numRows numCols numNZ matrixFormatSparseBlockCol
           - 2 * sizeofIndex * numCols) mod sz = 0
      \<and> ComputeMaxNZElemFromBufferSize sz numRows numCols
        (BufferSizeNeeded sz numRows numCols numNZ matrixFormatSparseBlockRow)
        matrixFormatSparseBlockRow = Inr numNZ
      \<and> (BufferSizeNeeded sz numRows numCols numNZ matrixFormatSparseBlockRow
           - 2 * sizeofIndex * numRows) mod sz = 0)
   \<and> (sizeofIndex + sz \<noteq> 0 \<and> unat (sizeofIndex + sz) * unat numNZ < 2 ^ 64 \<longrightarrow>
      ComputeMaxNZElemFromBufferSize sz numRows numCols
        (BufferSizeNeeded sz numRows numCols numNZ matrixFormatSparseCSC)
        matrixFormatSparseCSC = Inr numNZ
      \<and> (BufferSizeNeeded sz numRows numCols numNZ matrixFormatSparseCSC
           - sizeofIndex * (numCols + 1)) mod (sizeofIndex + sz) = 0
      \<and> ComputeMaxNZElemFromBufferSize sz numRows numCols
        (BufferSizeNeeded sz numRows numCols numNZ matrixFormatSparseCSR)
        matrixFormatSparseCSR = Inr numNZ
      \<and> (BufferSizeNeeded sz numRows numCols numNZ matrixFormatSparseCSR
           - sizeofIndex * (numRows + 1)) mod (sizeofIndex + sz) = 0)"
proof (intro conjI impI)
  assume a: "sz \<noteq> 0 \<and> unat sz * unat numNZ < 2 ^ 64"
  then have d: "(sz * numNZ) div sz = numNZ" and r: "(sz * numNZ) mod sz = 0"
    by (simp_all add: word64_div_exact)
  show "ComputeMaxNZElemFromBufferSize sz numRows numCols
        (BufferSizeNeeded sz numRows numCols numNZ matrixFormatSparseBlockCol)
        matrixFormatSparseBlockCol = Inr numNZ"
    by (simp add: ComputeMaxNZElemFromBufferSize_def block_values_bytes d)
  show "(BufferSizeNeeded sz numRows numCols numNZ matrixFormatSparseBlockCol
           - 2 * sizeofIndex * numCols) mod sz = 0"
    by (simp only: block_values_bytes r)
  show "ComputeMaxNZElemFromBufferSize sz numRows numCols
        (BufferSizeNeeded sz numRows numCols numNZ matrixFormatSparseBlockRow)
        matrixFormatSparseBlockRow = Inr numNZ"
    by (simp add: ComputeMaxNZElemFromBufferSize_def block_values_bytes d)
  show "(BufferSizeNeeded sz numRows numCols numNZ matrixFormatSparseBlockRow
           - 2 * sizeofIndex * numRows) mod sz = 0"
    by (simp only: block_values_bytes r)
next
  assume a: "sizeofIndex + sz \<noteq> 0 \<and> unat (sizeofIndex + sz) * unat numNZ < 2 ^ 64"
  then have d: "((sizeofIndex + sz) * numNZ) div (sizeofIndex + sz) = numNZ"
    and r: "((sizeofIndex + sz) * numNZ) mod (sizeofIndex + sz) = 0"
    by (simp_all add: word64_div_exact)
  show "ComputeMaxNZElemFromBufferSize sz numRows numCols
        (BufferSizeNeeded sz numRows numCols numNZ matrixFormatSparseCSC)
        matrixFormatSparseCSC = Inr numNZ"
    by (simp add: ComputeMaxNZElemFromBufferSize_def compressed_values_bytes d)
  show "(BufferSizeNeeded sz numRows numCols numNZ matrixFormatSparseCSC
           - sizeofIndex * (numCols + 1)) mod (sizeofIndex + sz) = 0"
    by (simp only: compressed_values_bytes r)
  show "ComputeMaxNZElemFromBufferSize sz numRows numCols
        (BufferSizeNeeded sz numRows numCols numNZ matrixFormatSparseCSR)
        matrixFormatSparseCSR = Inr numNZ"
    by (simp add: ComputeMaxNZElemFromBufferSize_def compressed_values_bytes d)
  show "(BufferSizeNeeded sz numRows numCols numNZ matrixFormatSparseCSR
           - sizeofIndex * (numRows + 1)) mod (sizeofIndex + sz) = 0"
    by (simp only: compressed_values_bytes r)
qed

text \<open>The theorem for 2 rows, 3 columns and 5 non-zeros of \<^verbatim>\<open>float\<close>.\<close>

theorem ComputeMaxNZElem_left_inverse_witness:
  "ComputeMaxNZElemFromBufferSize 4 2 3
      (BufferSizeNeeded 4 2 3 5 matrixFormatSparseBlockCol) matrixFormatSparseBlockCol = Inr 5
   \<and> ComputeMaxNZElemFromBufferSize 4 2 3
      (BufferSizeNeeded 4 2 3 5 matrixFormatSparseBlockRow) matrixFormatSparseBlockRow = Inr 5
   \<and> ComputeMaxNZElemFromBufferSize 4 2 3
      (BufferSizeNeeded 4 2 3 5 matrixFormatSparseCSC) matrixFormatSparseCSC = Inr 5
   \<and> ComputeMaxNZElemFromBufferSize 4 2 3
      (BufferSizeNeeded 4 2 3 5 matrixFormatSparseCSR) matrixFormatSparseCSR = Inr 5
   \<and> BufferSizeNeeded 4 2 3 5 matrixFormatSparseCSC = 56
   \<and> (BufferSizeNeeded 4 2 3 5 matrixFormatSparseCSC - sizeofIndex * (3 + 1))
        mod (sizeofIndex + 4) = 0"
proof -
  have h: "(4 :: size_t) \<noteq> 0 \<and> unat (4 :: size_t) * unat (5 :: size_t) < 2 ^ 64"
    "sizeofIndex + 4 \<noteq> 0 \<and> unat (sizeofIndex + 4) * unat (5 :: size_t) < 2 ^ 64"
    by (simp_all add: sizeofIndex_def)
  have b: "BufferSizeNeeded 4 2 3 5 matrixFormatSparseCSC = 56"
    by (simp add: BufferSizeNeeded_def MajorIndexCount_def SecondaryIndexCount_def
        sizeofIndex_def)
  from ComputeMaxNZElem_left_inverse [of 4 5 2 3] h b show ?thesis
    by blast
qed

text \<open>
  C9 as it is stated fails for \<open>2 ^ 62\<close> non-zeros of \<^verbatim>\<open>float\<close> in SparseBlockCol:
  \<open>4 * 2 ^ 62\<close> wraps to 0, so the size needed is 0 and the count computed back is 0.
\<close>

theorem ComputeMaxNZElem_overflow_counterexample:
  "ComputeMaxNZElemFromBufferSize 4 0 0
      (BufferSizeNeeded 4 0 0 (2 ^ 62) matrixFormatSparseBlockCol) matrixFormatSparseBlockCol
     = Inr 0
   \<and> ComputeMaxNZElemFromBufferSize 4 0 0
      (BufferSizeNeeded 4 0 0 (2 ^ 62) matrixFormatSparseBlockCol) matrixFormatSparseBlockCol
     \<noteq> Inr (2 ^ 62)"
  by (simp add: ComputeMaxNZElemFromBufferSize_def BufferSizeNeeded_def MajorIndexCount_def
      SecondaryIndexCount_def sizeofIndex_def)

subsection \<open>Setting the cache from the host\<close>

text \<open>
  C5 (as amended). \<open>UpdateCachedNzCount\<close> always sets the cached value to \<open>n\<close>, in
  either build and also when the verification throws; the cache is then valid exactly
  when \<open>n\<close> is not the sentinel \<open>-1\<close>. As the header stands (\<^verbatim>\<open>#if 1\<close>) the
  verification is disabled: whatever \<^verbatim>\<open>shouldVerify\<close> is, the call ends normally and
  its result does not depend on the device memory. The verification is still there:
  with the other branch compiled and \<^verbatim>\<open>shouldVerify\<close> set it fetches the count again,
  ends in a logic error when that differs from \<open>n\<close>, ends normally when it agrees,
  and fails as the fetch does when the fetch fails.
\<close>

theorem UpdateCachedNzCount_sets_cache:
  "fst (UpdateCachedNzCount_if disabled sz m n shouldVerify) = m\<lparr>m_cachedNzCount := n\<rparr>
   \<and> m_cachedNzCount (fst (UpdateCachedNzCount sz m n shouldVerify)) = n
   \<and> HasCachedNzCount (fst (UpdateCachedNzCount sz m n shouldVerify)) = (n \<noteq> - 1)
   \<and> UpdateCachedNzCount sz m n shouldVerify = (m\<lparr>m_cachedNzCount := n\<rparr>, Inr ())
   \<and> UpdateCachedNzCount sz (m\<lparr>deviceMem := d\<rparr>) n shouldVerify
       = (m\<lparr>deviceMem := d, m_cachedNzCount := n\<rparr>, Inr ())
   \<and> VerifyCachedNzCount sz m n = Inr ()
   \<and> snd (UpdateCachedNzCount_if disabled sz m n False) = Inr ()
   \<and> (FetchNzCount sz m = Inr c \<and> c \<noteq> n \<longrightarrow>
        snd (UpdateCachedNzCount_if False sz m n True) = Inl LogicError)
   \<and> (FetchNzCount sz m = Inr n \<longrightarrow>
        snd (UpdateCachedNzCount_if False sz m n True) = Inr ())
   \<and> (FetchNzCount sz m = Inl e \<longrightarrow>
        snd (UpdateCachedNzCount_if False sz m n True) = Inl e)"
proof (intro conjI impI)
  show "fst (UpdateCachedNzCount_if disabled sz m n shouldVerify) = m\<lparr>m_cachedNzCount := n\<rparr>"
    by (simp add: UpdateCachedNzCount_if_def Let_def)
  show u: "UpdateCachedNzCount sz m n shouldVerify = (m\<lparr>m_cachedNzCount := n\<rparr>, Inr ())"
    by (simp add: UpdateCachedNzCount_def UpdateCachedNzCount_if_def VerifyCachedNzCount_if_def
        Let_def)
  show "m_cachedNzCount (fst (UpdateCachedNzCount sz m n shouldVerify)) = n"
    by (simp add: u)
  show "HasCachedNzCount (fst (UpdateCachedNzCount sz m n shouldVerify)) = (n \<noteq> - 1)"
    by (simp add: u HasCachedNzCount_def INVALID_NZ_COUNT_def)
  show "UpdateCachedNzCount sz (m\<lparr>deviceMem := d\<rparr>) n shouldVerify
       = (m\<lparr>deviceMem := d, m_cachedNzCount := n\<rparr>, Inr ())"
    by (simp add: UpdateCachedNzCount_def UpdateCachedNzCount_if_def VerifyCachedNzCount_if_def
        Let_def)
  show "VerifyCachedNzCount sz m n = Inr ()"
    by (simp add: VerifyCachedNzCount_def VerifyCachedNzCount_if_def)
  show "snd (UpdateCachedNzCount_if disabled sz m n False) = Inr ()"
    by (simp add: UpdateCachedNzCount_if_def Let_def)
next
  assume "FetchNzCount sz m = Inr c \<and> c \<noteq> n"
  then show "snd (UpdateCachedNzCount_if False sz m n True) = Inl LogicError"
    by (simp add: UpdateCachedNzCount_if_def VerifyCachedNzCount_if_def Let_def
        FetchNzCount_update_cache)
next
  assume "FetchNzCount sz m = Inr n"
  then show "snd (UpdateCachedNzCount_if False sz m n True) = Inr ()"
    by (simp add: UpdateCachedNzCount_if_def VerifyCachedNzCount_if_def Let_def
        FetchNzCount_update_cache)
next
  assume "FetchNzCount sz m = Inl e"
  then show "snd (UpdateCachedNzCount_if False sz m n True) = Inl e"
    by (simp add: UpdateCachedNzCount_if_def VerifyCachedNzCount_if_def Let_def
        FetchNzCount_update_cache)
qed

text \<open>
  The theorem at \<open>exCSC\<close>, whose device-side count is 4, with 9 and with 4, and at
  \<open>exCOO\<close>, where the fetch is not implemented.
\<close>

theorem UpdateCachedNzCount_sets_cache_witness:
  "UpdateCachedNzCount 4 exCSC 9 True = (exCSC\<lparr>m_cachedNzCount := 9\<rparr>, Inr ())
   \<and> HasCachedNzCount (fst (UpdateCachedNzCount 4 exCSC 9 True))
   \<and> snd (UpdateCachedNzCount_if False 4 exCSC 9 True) = Inl LogicError
   \<and> snd (UpdateCachedNzCount_if False 4 exCSC 4 True) = Inr ()
   \<and> snd (UpdateCachedNzCount_if False 4 exCOO 4 True) = Inl NotImplemented"
proof -
  have coo: "FetchNzCount 4 exCOO = Inl NotImplemented"
    by (simp add: FetchNzCount_def ex_defs getters)
  show ?thesis
    using UpdateCachedNzCount_sets_cache [of True 4 exCSC 9 True "deviceMem exCSC" 4 NotImplemented]
      UpdateCachedNzCount_sets_cache [of True 4 exCSC 4 True "deviceMem exCSC" 4 NotImplemented]
      UpdateCachedNzCount_sets_cache [of True 4 exCOO 4 True "deviceMem exCSC" 4 NotImplemented]
      FetchNzCount_exCSC coo
    by (simp add: HasCachedNzCount_def INVALID_NZ_COUNT_def)
qed

text \<open>
  C5 as it is stated fails for \<open>n = -1\<close>: the cache is invalid after the call.
\<close>

theorem UpdateCachedNzCount_sentinel_counterexample:
  "\<not> HasCachedNzCount (fst (UpdateCachedNzCount 4 exCSC (- 1) True))"
  by (simp add: UpdateCachedNzCount_def UpdateCachedNzCount_if_def VerifyCachedNzCount_if_def
      Let_def HasCachedNzCount_def INVALID_NZ_COUNT_def)

text \<open>
  C10. The invalid state is the value \<open>-1\<close>. After \<open>UpdateCachedNzCount\<close> with
  \<open>n = -1\<close>, in either build, \<open>HasCachedNzCount\<close> is false and the next \<open>NzCount\<close>
  fetches: it returns and stores the fetched count, or fails as the fetch does. When
  \<open>HasCachedNzCount\<close> holds, the cached value, which is what \<open>NzCount\<close> returns, is
  not \<open>-1\<close>.
\<close>

theorem sentinel_update_stays_invalid:
  "\<not> HasCachedNzCount (fst (UpdateCachedNzCount sz m (- 1) shouldVerify))
   \<and> \<not> HasCachedNzCount (fst (UpdateCachedNzCount_if disabled sz m (- 1) shouldVerify))
   \<and> (FetchNzCount sz m = Inr c \<longrightarrow>
        NzCount sz (fst (UpdateCachedNzCount sz m (- 1) shouldVerify))
          = Inr (c, m\<lparr>m_cachedNzCount := c\<rparr>))
   \<and> (FetchNzCount sz m = Inl e \<longrightarrow>
        NzCount sz (fst (UpdateCachedNzCount sz m (- 1) shouldVerify)) = Inl e)
   \<and> (HasCachedNzCount m \<longrightarrow>
        m_cachedNzCount m \<noteq> - 1 \<and> NzCount sz m = Inr (m_cachedNzCount m, m))"
proof (intro conjI impI)
  have u: "fst (UpdateCachedNzCount_if disabled sz m (- 1) shouldVerify)
      = m\<lparr>m_cachedNzCount := - 1\<rparr>" for disabled
    by (simp add: UpdateCachedNzCount_if_def Let_def)
  have inv: "\<not> HasCachedNzCount (m\<lparr>m_cachedNzCount := - 1\<rparr>)"
    by (simp add: HasCachedNzCount_def INVALID_NZ_COUNT_def)
  show "\<not> HasCachedNzCount (fst (UpdateCachedNzCount sz m (- 1) shouldVerify))"
    using inv by (simp add: UpdateCachedNzCount_def u)
  show "\<not> HasCachedNzCount (fst (UpdateCachedNzCount_if disabled sz m (- 1) shouldVerify))"
    using inv by (simp add: u)
  {
    assume "FetchNzCount sz m = Inr c"
    then have "FetchNzCount sz (m\<lparr>m_cachedNzCount := - 1\<rparr>) = Inr c"
      by (simp add: FetchNzCount_update_cache)
    then show "NzCount sz (fst (UpdateCachedNzCount sz m (- 1) shouldVerify))
          = Inr (c, m\<lparr>m_cachedNzCount := c\<rparr>)"
      using inv by (simp add: UpdateCachedNzCount_def u NzCount_def)
  }
  {
    assume "FetchNzCount sz m = Inl e"
    then have "FetchNzCount sz (m\<lparr>m_cachedNzCount := - 1\<rparr>) = Inl e"
      by (simp add: FetchNzCount_update_cache)
    then show "NzCount sz (fst (UpdateCachedNzCount sz m (- 1) shouldVerify)) = Inl e"
      using inv by (simp add: UpdateCachedNzCount_def u NzCount_def)
  }
  {
    assume h: "HasCachedNzCount m"
    then show "m_cachedNzCount m \<noteq> - 1"
      by (simp add: HasCachedNzCount_def INVALID_NZ_COUNT_def)
    from h show "NzCount sz m = Inr (m_cachedNzCount m, m)"
      by (simp add: NzCount_def)
  }
qed

text \<open>
  The theorem at \<open>exCSC\<close> with 7 in the cache, and at \<open>exCOO\<close>.
\<close>

theorem sentinel_update_stays_invalid_witness:
  "\<not> HasCachedNzCount (fst (UpdateCachedNzCount 4 (exCSC\<lparr>m_cachedNzCount := 7\<rparr>) (- 1) True))
   \<and> NzCount 4 (fst (UpdateCachedNzCount 4 (exCSC\<lparr>m_cachedNzCount := 7\<rparr>) (- 1) True))
       = Inr (4, exCSC\<lparr>m_cachedNzCount := 4\<rparr>)
   \<and> NzCount 4 (fst (UpdateCachedNzCount 4 exCOO (- 1) True)) = Inl NotImplemented
   \<and> HasCachedNzCount (exCSC\<lparr>m_cachedNzCount := 7\<rparr>)
   \<and> m_cachedNzCount (exCSC\<lparr>m_cachedNzCount := 7\<rparr>) \<noteq> - 1
   \<and> NzCount 4 (exCSC\<lparr>m_cachedNzCount := 7\<rparr>) = Inr (7, exCSC\<lparr>m_cachedNzCount := 7\<rparr>)"
proof -
  have valid: "HasCachedNzCount (exCSC\<lparr>m_cachedNzCount := 7\<rparr>)"
    by (simp add: HasCachedNzCount_def INVALID_NZ_COUNT_def)
  have fetch: "FetchNzCount 4 (exCSC\<lparr>m_cachedNzCount := 7\<rparr>) = Inr 4"
    using FetchNzCount_exCSC by (simp add: FetchNzCount_update_cache)
  have coo: "FetchNzCount 4 exCOO = Inl NotImplemented"
    by (simp add: FetchNzCount_def ex_defs getters)
  show ?thesis
    using sentinel_update_stays_invalid [of 4 "exCSC\<lparr>m_cachedNzCount := 7\<rparr>" True True 4 NotImplemented]
      sentinel_update_stays_invalid [of 4 exCOO True True 4 NotImplemented]
      valid fetch coo
    by simp
qed

subsection \<open>The packed buffer\<close>

text \<open>
  C6 (as amended). The three sub-arrays are packed in the order values, major index,
  secondary index, with no padding. \<open>MajorIndexLocation\<close> is \<open>Buffer\<close> plus
  \<open>sizeAllocated\<close> value slots. For CSC and CSR, \<open>SecondaryIndexLocation\<close> is the
  position right after \<open>sizeAllocated\<close> major-index slots, moved on by
  \<open>sliceViewOffset\<close> index slots: it is that position exactly when the matrix is not
  a slice view. For SparseBlockCol it is \<open>MajorIndexLocation\<close> plus \<open>numCols\<close>
  index slots, for SparseBlockRow plus \<open>numRows\<close>.
\<close>

theorem subarray_locations:
  "MajorIndexLocation sz m = Buffer m + sz * GetSizeAllocated m
   \<and> (GetFormat m = matrixFormatSparseCSC \<or> GetFormat m = matrixFormatSparseCSR \<longrightarrow>
        SecondaryIndexLocation sz m =
          MajorIndexLocation sz m + sizeofIndex * GetSizeAllocated m
            + sizeofIndex * m_sliceViewOffset m)
   \<and> ((GetFormat m = matrixFormatSparseCSC \<or> GetFormat m = matrixFormatSparseCSR)
        \<and> m_sliceViewOffset m = 0 \<longrightarrow>
        SecondaryIndexLocation sz m =
          MajorIndexLocation sz m + sizeofIndex * GetSizeAllocated m)
   \<and> (GetFormat m = matrixFormatSparseBlockCol \<longrightarrow>
        SecondaryIndexLocation sz m = MajorIndexLocation sz m + sizeofIndex * GetNumCols m)
   \<and> (GetFormat m = matrixFormatSparseBlockRow \<longrightarrow>
        SecondaryIndexLocation sz m = MajorIndexLocation sz m + sizeofIndex * GetNumRows m)"
proof (intro conjI impI)
  show "MajorIndexLocation sz m = Buffer m + sz * GetSizeAllocated m"
    by (simp add: MajorIndexLocation_def)
next
  assume "GetFormat m = matrixFormatSparseCSC \<or> GetFormat m = matrixFormatSparseCSR"
  then show "SecondaryIndexLocation sz m =
      MajorIndexLocation sz m + sizeofIndex * GetSizeAllocated m
        + sizeofIndex * m_sliceViewOffset m"
    by (auto simp add: SecondaryIndexLocation_def MajorIndexLocation_def algebra_simps)
next
  assume "(GetFormat m = matrixFormatSparseCSC \<or> GetFormat m = matrixFormatSparseCSR)
    \<and> m_sliceViewOffset m = 0"
  then show "SecondaryIndexLocation sz m =
      MajorIndexLocation sz m + sizeofIndex * GetSizeAllocated m"
    by (auto simp add: SecondaryIndexLocation_def MajorIndexLocation_def algebra_simps)
next
  assume "GetFormat m = matrixFormatSparseBlockCol"
  then show "SecondaryIndexLocation sz m = MajorIndexLocation sz m + sizeofIndex * GetNumCols m"
    by (simp add: SecondaryIndexLocation_def)
next
  assume "GetFormat m = matrixFormatSparseBlockRow"
  then show "SecondaryIndexLocation sz m = MajorIndexLocation sz m + sizeofIndex * GetNumRows m"
    by (simp add: SecondaryIndexLocation_def)
qed

text \<open>
  The theorem at the example matrices: the major index starts at 4112; the secondary
  index at 4128 for \<open>exCSC\<close> and \<open>exCSR\<close>, at 4132 for the view, at 4124 and 4120
  for the block formats.
\<close>

theorem subarray_locations_witness:
  "MajorIndexLocation 4 exCSC = 4112
   \<and> SecondaryIndexLocation 4 exCSC = 4128
   \<and> SecondaryIndexLocation 4 exCSR = 4128
   \<and> SecondaryIndexLocation 4 exSlice = 4132
   \<and> SecondaryIndexLocation 4 exSBC = 4124
   \<and> SecondaryIndexLocation 4 exSBR = 4120"
proof -
  have f: "GetFormat exCSC = matrixFormatSparseCSC" "GetFormat exCSR = matrixFormatSparseCSR"
    "GetFormat exSlice = matrixFormatSparseCSC"
    "GetFormat exSBC = matrixFormatSparseBlockCol" "GetFormat exSBR = matrixFormatSparseBlockRow"
    by (simp_all add: ex_defs exSlice_def getters)
  have v: "Buffer exCSC = 4096" "GetSizeAllocated exCSC = 4" "m_sliceViewOffset exCSC = 0"
    "Buffer exCSR = 4096" "GetSizeAllocated exCSR = 4" "m_sliceViewOffset exCSR = 0"
    "Buffer exSlice = 4096" "GetSizeAllocated exSlice = 4" "m_sliceViewOffset exSlice = 1"
    "Buffer exSBC = 4096" "GetSizeAllocated exSBC = 4" "GetNumCols exSBC = 3"
    "Buffer exSBR = 4096" "GetSizeAllocated exSBR = 4" "GetNumRows exSBR = 2"
    by (simp_all add: ex_defs exSlice_def getters)
  show ?thesis
    using subarray_locations [of 4 exCSC] subarray_locations [of 4 exCSR]
      subarray_locations [of 4 exSlice] subarray_locations [of 4 exSBC]
      subarray_locations [of 4 exSBR]
    by (simp add: f v sizeofIndex_def)
qed

text \<open>
  C6 as it is stated fails at the view \<open>exSlice\<close>: the position right after the
  major index is 4128, and \<open>SecondaryIndexLocation\<close> is 4132.
\<close>

theorem subarray_locations_counterexample:
  "SecondaryIndexLocation 4 exSlice = 4132
   \<and> MajorIndexLocation 4 exSlice + sizeofIndex * GetSizeAllocated exSlice = 4128"
  by (simp add: SecondaryIndexLocation_def MajorIndexLocation_def sizeofIndex_def
      ex_defs exSlice_def getters)

text \<open>
  C7 (as amended). The slice-view offset enters the secondary index and nothing else:
  for every matrix and every offset \<open>k\<close>, \<open>Buffer\<close> and \<open>MajorIndexLocation\<close> are
  the same with offset \<open>k\<close> as without, \<open>MajorIndexLocation\<close> being computed from
  the buffer's base, while for a CSC matrix, the format of a column slice,
  \<open>SecondaryIndexLocation\<close> with offset \<open>k\<close> lies \<open>k\<close> index slots after where it
  lies with offset 0. The value pointer follows the view through that index:
  \<open>NzValues\<close> is \<open>Data\<close>, which for CSC is \<open>Buffer\<close> moved on by
  \<open>secondaryIndex[0]\<close> values, and with offset \<open>k\<close> that entry is the cell \<open>k\<close>
  slots into the secondary index of the whole buffer.
  \<open>MajorIndexLocationWithSliceViewOffset\<close> starts from \<open>Data\<close> in the same way.
\<close>

theorem sliceViewOffset_frame:
  "Buffer (m\<lparr>m_sliceViewOffset := k\<rparr>) = Buffer m
   \<and> MajorIndexLocation sz (m\<lparr>m_sliceViewOffset := k\<rparr>) = MajorIndexLocation sz m
   \<and> MajorIndexLocation sz m = Buffer m + sz * GetSizeAllocated m
   \<and> (GetFormat m = matrixFormatSparseCSC \<longrightarrow>
        SecondaryIndexLocation sz m =
          sizeofIndex * m_sliceViewOffset m
            + (Buffer m + (sz + sizeofIndex) * GetSizeAllocated m))
   \<and> (GetFormat m = matrixFormatSparseCSC \<longrightarrow>
        SecondaryIndexLocation sz (m\<lparr>m_sliceViewOffset := k\<rparr>) =
          SecondaryIndexLocation sz (m\<lparr>m_sliceViewOffset := 0\<rparr>) + sizeofIndex * k)
   \<and> NzValues sz m = Data sz m
   \<and> MajorIndexLocationWithSliceViewOffset sz m = Data sz m + sz * GetSizeAllocated m
   \<and> (GetFormat m = matrixFormatSparseCSC \<longrightarrow>
        Data sz m = Buffer m + sz * scast (SecondaryIndexValueAt sz m 0))
   \<and> (GetFormat m = matrixFormatSparseCSC \<longrightarrow>
        Data sz (m\<lparr>m_sliceViewOffset := k\<rparr>) =
          Buffer m + sz * scast (deviceMem m
            (SecondaryIndexLocation sz (m\<lparr>m_sliceViewOffset := 0\<rparr>) + sizeofIndex * k)))"
  by (simp add: SecondaryIndexLocation_def MajorIndexLocation_def Data_def NzValues_def
      MajorIndexLocationWithSliceViewOffset_def SecondaryIndexValueAt_def getters add_ac)

text \<open>
  The theorem at \<open>exCSC\<close> with offset 1: the secondary index moves from 4128 to 4132,
  and the cell at 4132 holds 1, the number of values \<open>Data\<close> moves on by.
\<close>

theorem sliceViewOffset_frame_witness:
  "Buffer (exCSC\<lparr>m_sliceViewOffset := 1\<rparr>) = Buffer exCSC
   \<and> MajorIndexLocation 4 (exCSC\<lparr>m_sliceViewOffset := 1\<rparr>) = MajorIndexLocation 4 exCSC
   \<and> SecondaryIndexLocation 4 (exCSC\<lparr>m_sliceViewOffset := 1\<rparr>) =
        SecondaryIndexLocation 4 (exCSC\<lparr>m_sliceViewOffset := 0\<rparr>) + sizeofIndex * 1
   \<and> SecondaryIndexLocation 4 (exCSC\<lparr>m_sliceViewOffset := 0\<rparr>) = 4128
   \<and> Data 4 (exCSC\<lparr>m_sliceViewOffset := 1\<rparr>) =
        Buffer exCSC + 4 * scast (deviceMem exCSC
          (SecondaryIndexLocation 4 (exCSC\<lparr>m_sliceViewOffset := 0\<rparr>) + sizeofIndex * 1))
   \<and> deviceMem exCSC 4132 = 1"
proof -
  have f: "GetFormat exCSC = matrixFormatSparseCSC"
    by (simp add: ex_defs getters)
  from sliceViewOffset_frame [where m = exCSC and k = 1 and sz = 4] f
  have "Buffer (exCSC\<lparr>m_sliceViewOffset := 1\<rparr>) = Buffer exCSC
    \<and> MajorIndexLocation 4 (exCSC\<lparr>m_sliceViewOffset := 1\<rparr>) = MajorIndexLocation 4 exCSC
    \<and> SecondaryIndexLocation 4 (exCSC\<lparr>m_sliceViewOffset := 1\<rparr>) =
        SecondaryIndexLocation 4 (exCSC\<lparr>m_sliceViewOffset := 0\<rparr>) + sizeofIndex * 1
    \<and> Data 4 (exCSC\<lparr>m_sliceViewOffset := 1\<rparr>) =
        Buffer exCSC + 4 * scast (deviceMem exCSC
          (SecondaryIndexLocation 4 (exCSC\<lparr>m_sliceViewOffset := 0\<rparr>) + sizeofIndex * 1))"
    by blast
  moreover have "SecondaryIndexLocation 4 (exCSC\<lparr>m_sliceViewOffset := 0\<rparr>) = 4128"
    by (simp add: SecondaryIndexLocation_def ex_defs getters sizeofIndex_def)
  moreover have "deviceMem exCSC 4132 = 1"
    by (simp add: ex_defs)
  ultimately show ?thesis
    by blast
qed

text \<open>
  C7 as it is stated fails at \<open>exCSC\<close>: with the slice-view offset at 0, 1 and 2 the
  value pointer \<open>NzValues\<close> is 4096, 4100 and 4108, while \<open>Buffer\<close> stays at 4096.
\<close>

theorem value_pointer_follows_view_counterexample:
  "GetFormat exCSC = matrixFormatSparseCSC
   \<and> NzValues 4 (exCSC\<lparr>m_sliceViewOffset := 0\<rparr>) = 4096
   \<and> NzValues 4 (exCSC\<lparr>m_sliceViewOffset := 1\<rparr>) = 4100
   \<and> NzValues 4 (exCSC\<lparr>m_sliceViewOffset := 2\<rparr>) = 4108
   \<and> Buffer (exCSC\<lparr>m_sliceViewOffset := 1\<rparr>) = 4096"
  by (simp add: NzValues_def Data_def SecondaryIndexValueAt_def SecondaryIndexLocation_def
      ex_defs getters sizeofIndex_def)

subsection \<open>Assertions on the format\<close>

lemma NzCount_compressed:
  assumes "isCompressed (GetFormat m)"
  shows "\<exists>c m'. NzCount sz m = Inr (c, m') \<and> GetFormat m' = GetFormat m"
  using assms
  by (auto simp add: NzCount_def FetchNzCount_def isCompressed_def GetFormat_def)

lemma MajorIndexSize_compressed:
  assumes "isCompressed (GetFormat m)"
  shows "\<exists>r. MajorIndexSize sz m = Inr r"
proof -
  from NzCount_compressed [OF assms] obtain c m' where "NzCount sz m = Inr (c, m')"
    by blast
  then show ?thesis
    by (simp add: MajorIndexSize_def MajorIndexCount_this_def)
qed

text \<open>
  C8. \<open>RowLocation\<close>, \<open>ColLocation\<close>, \<open>RowSize\<close> and \<open>ColSize\<close> assert that the
  format is CSC or CSR: for these two formats each of them returns, and for
  SparseBlockCol and SparseBlockRow (and COO) each of them ends in an assertion failure.
  \<open>BlockId2ColOrRow\<close> and \<open>ColOrRow2BlockId\<close> assert that the format is
  SparseBlockCol or SparseBlockRow: for these they return the major and the secondary
  index location, and for every other format they end in an assertion failure.
\<close>

theorem format_assertions:
  "(GetFormat m = matrixFormatSparseCSC \<or> GetFormat m = matrixFormatSparseCSR \<longrightarrow>
      (\<exists>p. RowLocation sz m = Inr p) \<and> (\<exists>p. ColLocation sz m = Inr p)
      \<and> (\<exists>r. RowSize sz m = Inr r) \<and> (\<exists>r. ColSize sz m = Inr r))
   \<and> (GetFormat m = matrixFormatSparseBlockCol \<or> GetFormat m = matrixFormatSparseBlockRow \<longrightarrow>
      RowLocation sz m = Inl AssertionFailure \<and> ColLocation sz m = Inl AssertionFailure
      \<and> RowSize sz m = Inl AssertionFailure \<and> ColSize sz m = Inl AssertionFailure)
   \<and> (GetFormat m = matrixFormatSparseBlockCol \<or> GetFormat m = matrixFormatSparseBlockRow \<longrightarrow>
      BlockId2ColOrRow sz m = Inr (MajorIndexLocation sz m)
      \<and> ColOrRow2BlockId sz m = Inr (SecondaryIndexLocation sz m))
   \<and> (GetFormat m = matrixFormatSparseCSC \<or> GetFormat m = matrixFormatSparseCSR
        \<or> GetFormat m = matrixFormatCOO \<longrightarrow>
      BlockId2ColOrRow sz m = Inl AssertionFailure
      \<and> ColOrRow2BlockId sz m = Inl AssertionFailure)
   \<and> (GetFormat m = matrixFormatCOO \<longrightarrow>
      RowLocation sz m = Inl AssertionFailure \<and> ColLocation sz m = Inl AssertionFailure
      \<and> RowSize sz m = Inl AssertionFailure \<and> ColSize sz m = Inl AssertionFailure)"
proof (intro conjI impI)
  assume "GetFormat m = matrixFormatSparseCSC \<or> GetFormat m = matrixFormatSparseCSR"
  then have c: "isCompressed (GetFormat m)"
    by (simp add: isCompressed_def)
  then show "\<exists>p. RowLocation sz m = Inr p" and "\<exists>p. ColLocation sz m = Inr p"
    by (simp_all add: RowLocation_def ColLocation_def)
  from c MajorIndexSize_compressed [OF c, of sz]
  show "\<exists>r. RowSize sz m = Inr r" and "\<exists>r. ColSize sz m = Inr r"
    by (auto simp add: RowSize_def ColSize_def)
next
  assume "GetFormat m = matrixFormatSparseBlockCol \<or> GetFormat m = matrixFormatSparseBlockRow"
  then have "\<not> isCompressed (GetFormat m)"
    by (auto simp add: isCompressed_def)
  then show "RowLocation sz m = Inl AssertionFailure" and "ColLocation sz m = Inl AssertionFailure"
    and "RowSize sz m = Inl AssertionFailure" and "ColSize sz m = Inl AssertionFailure"
    by (simp_all add: RowLocation_def ColLocation_def RowSize_def ColSize_def)
next
  assume "GetFormat m = matrixFormatSparseBlockCol \<or> GetFormat m = matrixFormatSparseBlockRow"
  then have "isBlock (GetFormat m)"
    by (simp add: isBlock_def)
  then show "BlockId2ColOrRow sz m = Inr (MajorIndexLocation sz m)"
    and "ColOrRow2BlockId sz m = Inr (SecondaryIndexLocation sz m)"
    by (simp_all add: BlockId2ColOrRow_def ColOrRow2BlockId_def)
next
  assume "GetFormat m = matrixFormatSparseCSC \<or> GetFormat m = matrixFormatSparseCSR
        \<or> GetFormat m = matrixFormatCOO"
  then have "\<not> isBlock (GetFormat m)"
    by (auto simp add: isBlock_def)
  then show "BlockId2ColOrRow sz m = Inl AssertionFailure"
    and "ColOrRow2BlockId sz m = Inl AssertionFailure"
    by (simp_all add: BlockId2ColOrRow_def ColOrRow2BlockId_def)
next
  assume "GetFormat m = matrixFormatCOO"
  then have "\<not> isCompressed (GetFormat m)"
    by (simp add: isCompressed_def)
  then show "RowLocation sz m = Inl AssertionFailure" and "ColLocation sz m = Inl AssertionFailure"
    and "RowSize sz m = Inl AssertionFailure" and "ColSize sz m = Inl AssertionFailure"
    by (simp_all add: RowLocation_def ColLocation_def RowSize_def ColSize_def)
qed

text \<open>The theorem at the five example matrices.\<close>

theorem format_assertions_witness:
  "(\<exists>p. RowLocation 4 exCSC = Inr p) \<and> (\<exists>p. ColLocation 4 exCSC = Inr p)
   \<and> (\<exists>r. RowSize 4 exCSC = Inr r) \<and> (\<exists>r. ColSize 4 exCSC = Inr r)
   \<and> (\<exists>p. RowLocation 4 exCSR = Inr p) \<and> (\<exists>p. ColLocation 4 exCSR = Inr p)
   \<and> (\<exists>r. RowSize 4 exCSR = Inr r) \<and> (\<exists>r. ColSize 4 exCSR = Inr r)
   \<and> RowLocation 4 exSBC = Inl AssertionFailure \<and> ColLocation 4 exSBC = Inl AssertionFailure
   \<and> RowSize 4 exSBR = Inl AssertionFailure \<and> ColSize 4 exSBR = Inl AssertionFailure
   \<and> BlockId2ColOrRow 4 exSBC = Inr (MajorIndexLocation 4 exSBC)
   \<and> ColOrRow2BlockId 4 exSBR = Inr (SecondaryIndexLocation 4 exSBR)
   \<and> BlockId2ColOrRow 4 exCSC = Inl AssertionFailure
   \<and> ColOrRow2BlockId 4 exCSR = Inl AssertionFailure
   \<and> RowLocation 4 exCOO = Inl AssertionFailure
   \<and> BlockId2ColOrRow 4 exCOO = Inl AssertionFailure"
proof -
  have f: "GetFormat exCSC = matrixFormatSparseCSC" "GetFormat exCSR = matrixFormatSparseCSR"
    "GetFormat exSBC = matrixFormatSparseBlockCol" "GetFormat exSBR = matrixFormatSparseBlockRow"
    "GetFormat exCOO = matrixFormatCOO"
    by (simp_all add: ex_defs getters)
  show ?thesis
    using format_assertions [of exCSC 4] format_assertions [of exCSR 4]
      format_assertions [of exSBC 4] format_assertions [of exSBR 4]
      format_assertions [of exCOO 4]
    by (simp only: f) simp
qed

end
